theory Spec2Isabelle
  imports Complex_Main
begin

section \<open>JavaScript numbers as the modal uses them\<close>

text \<open>
  The purchase modal (\<^verbatim>\<open>BuyPairModal\<close>) computes with JavaScript numbers: the result of
  \<^verbatim>\<open>parseFloat\<close>, the product \<^verbatim>\<open>amountNum * 2\<close>, and the comparisons \<^verbatim>\<open>>=\<close> and \<^verbatim>\<open>>\<close>.
  A finite value is represented by the rational number it denotes (\<open>-0\<close> and \<open>+0\<close> are
  both \<open>Fin 0\<close>: they are equal under every comparison and both falsy); \<open>NaN\<close> and the two
  infinities are values of their own. The product of two finite values is taken exactly.
\<close>

datatype number = NaN | Fin rat | PosInfinity | NegInfinity

text \<open>\<^verbatim>\<open>a < b\<close>: false as soon as an operand is \<open>NaN\<close>.\<close>

fun js_lt :: "number \<Rightarrow> number \<Rightarrow> bool" where
  "js_lt (Fin a) (Fin b) = (a < b)"
| "js_lt (Fin a) PosInfinity = True"
| "js_lt NegInfinity (Fin b) = True"
| "js_lt NegInfinity PosInfinity = True"
| "js_lt _ _ = False"

text \<open>\<^verbatim>\<open>a > b\<close> is \<^verbatim>\<open>b < a\<close>; \<^verbatim>\<open>a >= b\<close> is the negation of \<^verbatim>\<open>a < b\<close> unless an operand
  is \<open>NaN\<close>, where it is false.\<close>

definition js_gt :: "number \<Rightarrow> number \<Rightarrow> bool" where
  "js_gt a b = js_lt b a"

definition js_ge :: "number \<Rightarrow> number \<Rightarrow> bool" where
  "js_ge a b = (a \<noteq> NaN \<and> b \<noteq> NaN \<and> \<not> js_lt a b)"

text \<open>\<^verbatim>\<open>a * b\<close>.\<close>

fun js_times :: "number \<Rightarrow> number \<Rightarrow> number" where
  "js_times NaN _ = NaN"
| "js_times _ NaN = NaN"
| "js_times (Fin a) (Fin b) = Fin (a * b)"
| "js_times (Fin a) PosInfinity =
     (if a = 0 then NaN else if 0 < a then PosInfinity else NegInfinity)"
| "js_times (Fin a) NegInfinity =
     (if a = 0 then NaN else if 0 < a then NegInfinity else PosInfinity)"
| "js_times PosInfinity (Fin b) =
     (if b = 0 then NaN else if 0 < b then PosInfinity else NegInfinity)"
| "js_times NegInfinity (Fin b) =
     (if b = 0 then NaN else if 0 < b then NegInfinity else PosInfinity)"
| "js_times PosInfinity PosInfinity = PosInfinity"
| "js_times PosInfinity NegInfinity = NegInfinity"
| "js_times NegInfinity PosInfinity = NegInfinity"
| "js_times NegInfinity NegInfinity = PosInfinity"

text \<open>Truthiness of a number, and \<^verbatim>\<open>x || d\<close> for a number \<open>x\<close> that may be
  \<^verbatim>\<open>undefined\<close> (\<open>None\<close>): \<open>NaN\<close>, zero and \<^verbatim>\<open>undefined\<close> are falsy.\<close>

definition truthy :: "number \<Rightarrow> bool" where
  "truthy x = (x \<noteq> NaN \<and> x \<noteq> Fin 0)"

definition js_or :: "number option \<Rightarrow> number \<Rightarrow> number" where
  "js_or x d = (case x of None \<Rightarrow> d | Some v \<Rightarrow> if truthy v then v else d)"

section \<open>Data exchanged with the wallet and trading endpoints\<close>

text \<open>\<^verbatim>\<open>WalletBalances\<close> and \<^verbatim>\<open>WalletStatus\<close> of \<^verbatim>\<open>hooks/useWallet.tsx\<close>. The record is
  polymorphic in the type of amounts: the browser code holds JavaScript numbers.\<close>

record 'n WalletBalances =
  pol :: 'n
  usdc_e :: 'n

record WalletStatus =
  exists_wallet :: bool
  address :: "string option"
  unlocked :: bool
  balances :: "number WalletBalances option"
  approvals_set :: bool

datatype Position = YES | NO

text \<open>The fields of a \<^verbatim>\<open>Portfolio\<close> (\<^verbatim>\<open>types/portfolio.ts\<close>) that identify the two legs are
  the fields the request body repeats under the same names, so both records extend one
  record of these five fields. Of the remaining \<^verbatim>\<open>Portfolio\<close> fields the modal reads the
  question texts and quoted prices, for display only.\<close>

record Pair =
  pair_id :: string
  target_market_id :: string
  target_position :: Position
  cover_market_id :: string
  cover_position :: Position

record Portfolio = Pair +
  target_question :: string
  target_price :: number
  cover_question :: string
  cover_price :: number

text \<open>The body posted to \<^verbatim>\<open>/trading/buy-pair\<close>.\<close>

record 'n ExecutionRequest = Pair +
  amount_per_position :: 'n
  skip_clob_sell :: bool

text \<open>\<^verbatim>\<open>TradeResult\<close> of the modal (lines 28 to 35); the type of one leg's entry is
  written inline there. Optional fields are options.\<close>

record LegOutcome =
  split_tx :: "string option"
  clob_order_id :: "string option"
  error :: "string option"

record 'n TradeResult =
  success :: bool
  target :: LegOutcome
  cover :: LegOutcome
  total_spent :: 'n
  final_balances :: "'n WalletBalances"
  warnings :: "string list option"

section \<open>The purchase modal\<close>

datatype Step = Unlock | Input | Executing | Success | Error

text \<open>The state of the component: its \<^verbatim>\<open>useState\<close> cells, the two values it reads from
  \<^verbatim>\<open>useWallet\<close> (\<open>status\<close>, and \<open>loading\<close> under the name \<open>walletLoading\<close>), and the
  handler calls that are suspended at an \<^verbatim>\<open>await\<close>: \<open>in_flight\<close> counts the \<^verbatim>\<open>handleBuy\<close>
  calls waiting for their \<^verbatim>\<open>fetch\<close>, \<open>unlocks_in_flight\<close> the \<^verbatim>\<open>handleUnlock\<close> calls waiting
  for \<^verbatim>\<open>unlock(password)\<close>. The cell \<^verbatim>\<open>error\<close> is \<open>error_state\<close> here (the name \<open>error\<close>
  is the leg's field).\<close>

record Modal =
  amount :: string
  step :: Step
  result :: "number TradeResult option"
  error_state :: "string option"
  executionStep :: string
  password :: string
  unlocking :: bool
  unlockError :: "string option"
  status :: "WalletStatus option"
  walletLoading :: bool
  in_flight :: nat
  unlocks_in_flight :: nat

text \<open>The state a newly mounted modal has, for the wallet status and loading flag the
  provider holds at that moment.\<close>

definition initial :: "WalletStatus option \<Rightarrow> bool \<Rightarrow> Modal" where
  "initial st loading =
     \<lparr>amount = ''10'', step = Input, result = None, error_state = None,
      executionStep = '''', password = '''', unlocking = False, unlockError = None,
      status = st, walletLoading = loading, in_flight = 0, unlocks_in_flight = 0\<rparr>"

subsection \<open>Values derived on every render (lines 49 and 66 to 71)\<close>

text \<open>\<^verbatim>\<open>parseFloat\<close> is the JavaScript built-in; every definition that depends on it
  takes it as the argument \<open>parseFloat\<close>, so the theorems hold for whatever it returns.\<close>

definition needsUnlock :: "Modal \<Rightarrow> bool" where
  "needsUnlock s =
     (\<not> walletLoading s \<and> \<not> (case status s of None \<Rightarrow> False | Some st \<Rightarrow> unlocked st))"

definition MIN_AMOUNT :: number where
  "MIN_AMOUNT = Fin 5"

definition amountNum :: "(string \<Rightarrow> number) \<Rightarrow> Modal \<Rightarrow> number" where
  "amountNum parseFloat s = js_or (Some (parseFloat (amount s))) (Fin 0)"

definition totalCost :: "(string \<Rightarrow> number) \<Rightarrow> Modal \<Rightarrow> number" where
  "totalCost parseFloat s = js_times (amountNum parseFloat s) (Fin 2)"

text \<open>\<^verbatim>\<open>status?.balances?.usdc_e || 0\<close>, the balance the modal checks and displays.\<close>

definition usdc_e_balance :: "Modal \<Rightarrow> number" where
  "usdc_e_balance s =
     js_or (case status s of None \<Rightarrow> None
            | Some st \<Rightarrow> (case balances st of None \<Rightarrow> None | Some b \<Rightarrow> Some (usdc_e b)))
       (Fin 0)"

definition hasSufficientBalance :: "(string \<Rightarrow> number) \<Rightarrow> Modal \<Rightarrow> bool" where
  "hasSufficientBalance parseFloat s = js_ge (usdc_e_balance s) (totalCost parseFloat s)"

definition meetsMinimum :: "(string \<Rightarrow> number) \<Rightarrow> Modal \<Rightarrow> bool" where
  "meetsMinimum parseFloat s = js_ge (amountNum parseFloat s) MIN_AMOUNT"

subsection \<open>What is rendered\<close>

text \<open>The three panels of the step \<^verbatim>\<open>'input'\<close> (lines 133, 141 and 188): the spinner while
  the wallet loads, the unlock form while the wallet is locked, the purchase form
  otherwise.\<close>

definition shows_loading :: "Modal \<Rightarrow> bool" where
  "shows_loading s = (step s = Input \<and> walletLoading s)"

definition shows_unlock :: "Modal \<Rightarrow> bool" where
  "shows_unlock s = (step s = Input \<and> \<not> walletLoading s \<and> needsUnlock s)"

definition shows_input :: "Modal \<Rightarrow> bool" where
  "shows_input s = (step s = Input \<and> \<not> walletLoading s \<and> \<not> needsUnlock s)"

text \<open>The \<^verbatim>\<open>disabled\<close> attribute of the Confirm Purchase button (line 259) and the
  condition of the notice "Minimum $5 required" (line 224).\<close>

definition confirm_disabled :: "(string \<Rightarrow> number) \<Rightarrow> Modal \<Rightarrow> bool" where
  "confirm_disabled parseFloat s =
     (\<not> hasSufficientBalance parseFloat s \<or> \<not> meetsMinimum parseFloat s)"

definition shows_minimum_notice :: "(string \<Rightarrow> number) \<Rightarrow> Modal \<Rightarrow> bool" where
  "shows_minimum_notice parseFloat s =
     (\<not> meetsMinimum parseFloat s \<and> js_gt (amountNum parseFloat s) (Fin 0))"

text \<open>\<^verbatim>\<open>result.warnings?.length\<close> as a condition, and the heading of the outcome panel
  (lines 276 to 292 and 335 to 343): none while another panel is shown.\<close>

definition has_warnings :: "'n TradeResult \<Rightarrow> bool" where
  "has_warnings r = (case warnings r of None \<Rightarrow> False | Some ws \<Rightarrow> ws \<noteq> [])"

definition outcome_heading :: "Modal \<Rightarrow> string option" where
  "outcome_heading s =
     (if step s = Success then
        (case result s of
           None \<Rightarrow> None
         | Some r \<Rightarrow> Some (if has_warnings r then ''Partial Success'' else ''Purchase Complete''))
      else if step s = Error then Some ''Trade Failed''
      else None)"

subsection \<open>The handlers\<close>

text \<open>The object literal passed to \<^verbatim>\<open>JSON.stringify\<close> (lines 87 to 95).\<close>

definition request_body ::
  "(string \<Rightarrow> number) \<Rightarrow> Portfolio \<Rightarrow> Modal \<Rightarrow> number ExecutionRequest" where
  "request_body parseFloat p s =
     \<lparr>pair_id = pair_id p,
      target_market_id = target_market_id p,
      target_position = target_position p,
      cover_market_id = cover_market_id p,
      cover_position = cover_position p,
      amount_per_position = amountNum parseFloat s,
      skip_clob_sell = False\<rparr>"

text \<open>\<^verbatim>\<open>handleBuy\<close> up to its \<^verbatim>\<open>await fetch\<close> (lines 73 to 96): the new state and the
  requests sent to \<^verbatim>\<open>/trading/buy-pair\<close>.\<close>

definition handleBuy ::
  "(string \<Rightarrow> number) \<Rightarrow> Portfolio \<Rightarrow> Modal \<Rightarrow> Modal \<times> number ExecutionRequest list" where
  "handleBuy parseFloat p s =
     (if \<not> hasSufficientBalance parseFloat s then
        (s\<lparr>error_state := Some ''Insufficient USDC.e balance''\<rparr>, [])
      else
        (s\<lparr>step := Executing, error_state := None,
           executionStep := ''Splitting target position...'',
           in_flight := Suc (in_flight s)\<rparr>,
         [request_body parseFloat p s]))"

text \<open>How the awaited request ends: \<^verbatim>\<open>fetch\<close> or \<^verbatim>\<open>res.json()\<close> throws (with the message
  of the thrown value when it is an \<^verbatim>\<open>Error\<close>), the response is not ok (with
  \<^verbatim>\<open>data.detail\<close> when present), or it is ok and carries a \<^verbatim>\<open>TradeResult\<close>.\<close>

datatype FetchOutcome =
    Thrown "string option"
  | HttpNotOk "string option"
  | HttpOk "number TradeResult"

text \<open>\<^verbatim>\<open>handleBuy\<close> from the \<^verbatim>\<open>await\<close> on (lines 98 to 109). The \<^verbatim>\<open>throw\<close> of line 101 is
  caught by the \<^verbatim>\<open>catch\<close> of line 106; \<^verbatim>\<open>data.detail || 'Trade failed'\<close> takes the default
  for a missing or empty detail.\<close>

definition handleBuy_settled :: "FetchOutcome \<Rightarrow> Modal \<Rightarrow> Modal" where
  "handleBuy_settled out s =
     (case out of
        Thrown m \<Rightarrow>
          s\<lparr>in_flight := in_flight s - 1,
            error_state := Some (case m of Some msg \<Rightarrow> msg | None \<Rightarrow> ''Trade failed''),
            step := Error\<rparr>
      | HttpNotOk d \<Rightarrow>
          s\<lparr>in_flight := in_flight s - 1,
            error_state :=
              Some (case d of
                      Some msg \<Rightarrow> if msg = [] then ''Trade failed'' else msg
                    | None \<Rightarrow> ''Trade failed''),
            step := Error\<rparr>
      | HttpOk data \<Rightarrow>
          s\<lparr>in_flight := in_flight s - 1,
            result := Some data,
            step := (if success data then Success else Error)\<rparr>)"

text \<open>The Try Again button (line 355).\<close>

definition try_again :: "Modal \<Rightarrow> Modal" where
  "try_again s = s\<lparr>step := Input, error_state := None\<rparr>"

text \<open>\<^verbatim>\<open>WalletProvider.refresh\<close> (\<^verbatim>\<open>useWallet.tsx\<close>, lines 40 to 52) as the modal sees it:
  a fetched status replaces the held one, a failed fetch leaves it; either way loading
  ends. The provider calls it on mount, every 30 seconds and after each wallet
  operation.\<close>

definition refresh :: "WalletStatus option \<Rightarrow> Modal \<Rightarrow> Modal" where
  "refresh fetched s =
     (case fetched of
        Some st \<Rightarrow> s\<lparr>status := Some st, walletLoading := False\<rparr>
      | None \<Rightarrow> s\<lparr>walletLoading := False\<rparr>)"

text \<open>\<^verbatim>\<open>handleUnlock\<close> up to its \<^verbatim>\<open>await unlock(password)\<close> (lines 51 to 56): nothing for
  an empty password, else the call is suspended with \<^verbatim>\<open>unlocking\<close> set.\<close>

definition handleUnlock :: "Modal \<Rightarrow> Modal" where
  "handleUnlock s =
     (if password s = [] then s
      else s\<lparr>unlocking := True, unlockError := None,
             unlocks_in_flight := Suc (unlocks_in_flight s)\<rparr>)"

text \<open>\<^verbatim>\<open>handleUnlock\<close> from the \<^verbatim>\<open>await\<close> on (lines 56 to 63), whatever the modal shows by
  then. \<open>Inl msg\<close>: \<^verbatim>\<open>unlock\<close> threw (always an \<^verbatim>\<open>Error\<close>, see \<^verbatim>\<open>useWallet.tsx\<close> lines 96 to
  99), and the message becomes the unlock error. \<open>Inr fetched\<close>: \<^verbatim>\<open>unlock\<close> returned, after
  its own \<^verbatim>\<open>refresh\<close> (\<^verbatim>\<open>useWallet.tsx\<close> line 100); the password is cleared and the step is
  set to \<^verbatim>\<open>'input'\<close>. Either way \<^verbatim>\<open>unlocking\<close> ends.\<close>

definition handleUnlock_settled :: "string + WalletStatus option \<Rightarrow> Modal \<Rightarrow> Modal" where
  "handleUnlock_settled out s =
     (case out of
        Inl msg \<Rightarrow>
          s\<lparr>unlocks_in_flight := unlocks_in_flight s - 1,
            unlockError := Some msg, unlocking := False\<rparr>
      | Inr fetched \<Rightarrow>
          (refresh fetched s)\<lparr>unlocks_in_flight := unlocks_in_flight s - 1,
            password := [], step := Input, unlocking := False\<rparr>)"

subsection \<open>The modal as a transition system\<close>

text \<open>An event is a user action on an element of the rendered panel, the settling of
  a suspended \<^verbatim>\<open>handleBuy\<close> or \<^verbatim>\<open>handleUnlock\<close>, or a refresh of the wallet provider. An
  action on an element that is not rendered, or on a disabled button, changes nothing.
  The Unlock button is disabled while \<^verbatim>\<open>unlocking\<close> or with an empty password (line 178);
  the Enter key in the password field calls \<^verbatim>\<open>handleUnlock\<close> whenever the field is
  rendered (line 157). Closing the modal unmounts it and ends the run.\<close>

datatype Event =
    ChangeAmount string
  | ClickConfirm
  | FetchSettled FetchOutcome
  | ClickTryAgain
  | ChangePassword string
  | ClickUnlock
  | PressEnter
  | UnlockSettled "string + WalletStatus option"
  | WalletRefreshed "WalletStatus option"

fun react ::
  "(string \<Rightarrow> number) \<Rightarrow> Portfolio \<Rightarrow> Modal \<Rightarrow> Event \<Rightarrow> Modal \<times> number ExecutionRequest list" where
  "react parseFloat p s (ChangeAmount v) =
     ((if shows_input s then s\<lparr>amount := v\<rparr> else s), [])"
| "react parseFloat p s ClickConfirm =
     (if shows_input s \<and> \<not> confirm_disabled parseFloat s then handleBuy parseFloat p s
      else (s, []))"
| "react parseFloat p s (FetchSettled out) =
     ((if 0 < in_flight s then handleBuy_settled out s else s), [])"
| "react parseFloat p s ClickTryAgain =
     ((if step s = Error then try_again s else s), [])"
| "react parseFloat p s (ChangePassword v) =
     ((if shows_unlock s then s\<lparr>password := v\<rparr> else s), [])"
| "react parseFloat p s ClickUnlock =
     ((if shows_unlock s \<and> \<not> (unlocking s \<or> password s = []) then handleUnlock s else s), [])"
| "react parseFloat p s PressEnter =
     ((if shows_unlock s then handleUnlock s else s), [])"
| "react parseFloat p s (UnlockSettled out) =
     ((if 0 < unlocks_in_flight s then handleUnlock_settled out s else s), [])"
| "react parseFloat p s (WalletRefreshed fetched) = (refresh fetched s, [])"


text \<open>A run: the state after a list of events, and the requests sent, in order.\<close>

fun run ::
  "(string \<Rightarrow> number) \<Rightarrow> Portfolio \<Rightarrow> Modal \<Rightarrow> Event list \<Rightarrow> Modal \<times> number ExecutionRequest list" where
  "run parseFloat p s [] = (s, [])"
| "run parseFloat p s (e # es) =
     (case react parseFloat p s e of
        (s', rs) \<Rightarrow> (case run parseFloat p s' es of (s'', rs') \<Rightarrow> (s'', rs @ rs')))"


section \<open>The execution engine behind the trading endpoint\<close>

text \<open>
  The code that serves \<^verbatim>\<open>/trading/buy-pair\<close> is not among the sources; the modal is its
  only caller there. The definitions of this section follow the specification's sections
  4.2 to 4.4 and 6. The request is the validated \<^verbatim>\<open>ExecutionRequest\<close> (the validator of
  section 4.1 runs before the orchestrator and is not part of them), with amounts as
  rational numbers.
\<close>

text \<open>Modelled from the spec: the collaborators the engine consumes (section 6), which
  are not in the sources. \<open>'w\<close> is the state of chain, order book and account; a call
  returns its result (\<open>Inl\<close> an error, \<open>Inr\<close> a transaction or order identifier) and the
  state after it. \<open>chain_split\<close> is \<^verbatim>\<open>split(market, amount) -> tx_id | error\<close>, \<open>book_sell\<close>
  is \<^verbatim>\<open>sell(market, outcome, amount) -> order_id | error\<close>, \<open>read_balances\<close> is
  \<^verbatim>\<open>balances()\<close>, and \<open>fills_off_quote\<close> says whether the sells were realized at
  effectively different prices than quoted (section 4.4).\<close>

record 'w Clients =
  chain_split :: "'w \<Rightarrow> string \<Rightarrow> rat \<Rightarrow> (string + string) \<times> 'w"
  book_sell :: "'w \<Rightarrow> string \<Rightarrow> Position \<Rightarrow> rat \<Rightarrow> (string + string) \<times> 'w"
  read_balances :: "'w \<Rightarrow> rat WalletBalances"
  fills_off_quote :: "'w \<Rightarrow> bool"

text \<open>Modelled from the spec: a call to the chain client or to the order-book client of
  section 6, with its arguments; an execution returns the calls it made, in order, so
  that what was attempted can be stated.\<close>

datatype Call = SplitCall string rat | SellCall string Position rat

text \<open>Modelled from the spec: the outcome token a position does not want, which the
  sell step of section 4.2 sells (the engine's code is not in the sources).\<close>

fun unwanted :: "Position \<Rightarrow> Position" where
  "unwanted YES = NO"
| "unwanted NO = YES"

text \<open>Modelled from the spec: the Leg Executor of section 4.2, whose code is not in the
  sources. Split first; on its failure the leg ends with that error and no sell is
  attempted. Then, unless the skip flag is set, sell the unwanted outcome token; on its
  failure the leg is failed and keeps the split transaction. Each step is attempted
  once.\<close>

definition leg_executor ::
  "'w Clients \<Rightarrow> bool \<Rightarrow> string \<Rightarrow> Position \<Rightarrow> rat \<Rightarrow> 'w \<Rightarrow> LegOutcome \<times> Call list \<times> 'w" where
  "leg_executor c skip market position amt w =
     (case chain_split c w market amt of
        (Inl e, w1) \<Rightarrow>
          (\<lparr>split_tx = None, clob_order_id = None, error = Some e\<rparr>,
           [SplitCall market amt], w1)
      | (Inr tx, w1) \<Rightarrow>
          if skip then
            (\<lparr>split_tx = Some tx, clob_order_id = None, error = None\<rparr>,
             [SplitCall market amt], w1)
          else
            (case book_sell c w1 market (unwanted position) amt of
               (Inl e, w2) \<Rightarrow>
                 (\<lparr>split_tx = Some tx, clob_order_id = None, error = Some e\<rparr>,
                  [SplitCall market amt, SellCall market (unwanted position) amt], w2)
             | (Inr order, w2) \<Rightarrow>
                 (\<lparr>split_tx = Some tx, clob_order_id = Some order, error = None\<rparr>,
                  [SplitCall market amt, SellCall market (unwanted position) amt], w2)))"

text \<open>Modelled from the spec: the amount a leg committed (section 4.3): its amount when
  its split is confirmed, whatever its sell did, and nothing otherwise.\<close>

definition committed :: "LegOutcome \<Rightarrow> rat \<Rightarrow> rat" where
  "committed leg amt = (if split_tx leg = None then 0 else amt)"

text \<open>Modelled from the spec: the Pair Orchestrator of section 4.3, whose code is not in
  the sources. The target leg is attempted before the cover leg, the cover leg whatever
  the target leg's outcome; both outcomes, the total spent, the calls made and the final
  state are returned.\<close>

definition pair_orchestrator ::
  "'w Clients \<Rightarrow> rat ExecutionRequest \<Rightarrow> 'w \<Rightarrow> (LegOutcome \<times> LegOutcome \<times> rat) \<times> Call list \<times> 'w" where
  "pair_orchestrator c rq w =
     (case leg_executor c (skip_clob_sell rq) (target_market_id rq) (target_position rq)
             (amount_per_position rq) w of
        (t, calls_t, w1) \<Rightarrow>
          (case leg_executor c (skip_clob_sell rq) (cover_market_id rq) (cover_position rq)
                  (amount_per_position rq) w1 of
             (cv, calls_c, w2) \<Rightarrow>
               ((t, cv, committed t (amount_per_position rq) + committed cv (amount_per_position rq)),
                calls_t @ calls_c, w2)))"

text \<open>Modelled from the spec: the side named in a warning of section 4.4, as text.\<close>

definition show_position :: "Position \<Rightarrow> string" where
  "show_position x = (case x of YES \<Rightarrow> ''YES'' | NO \<Rightarrow> ''NO'')"

text \<open>Modelled from the spec: the warning of the Result Aggregator (section 4.4, whose
  code is not in the sources) for one leg: emitted when the leg's split succeeded but its
  sell failed or was skipped. (The testable property of section 8 on skipped sells reads
  differently; no theorem below is about a skipped sell.)\<close>

definition leg_warning :: "string \<Rightarrow> Position \<Rightarrow> LegOutcome \<Rightarrow> string list" where
  "leg_warning name position leg =
     (if split_tx leg \<noteq> None \<and> clob_order_id leg = None then
        [''position not fully hedged - you are holding unsold '' @
          show_position (unwanted position) @ '' tokens for '' @ name]
      else [])"

text \<open>Modelled from the spec: the informational warning of section 4.4, emitted when
  both legs' sells succeeded at realized prices effectively different from the quoted
  ones.\<close>

definition price_warning :: "LegOutcome \<Rightarrow> LegOutcome \<Rightarrow> bool \<Rightarrow> string list" where
  "price_warning t cv off_quote =
     (if clob_order_id t \<noteq> None \<and> clob_order_id cv \<noteq> None \<and> off_quote then
        [''sells were realized at prices different from the quoted ones'']
      else [])"

text \<open>Modelled from the spec: the Result Aggregator of section 4.4, whose code is not in
  the sources: \<^verbatim>\<open>success\<close> holds when neither leg has an error, and the final balances
  are the ones read after both legs.\<close>

definition result_aggregator ::
  "rat ExecutionRequest \<Rightarrow> LegOutcome \<Rightarrow> LegOutcome \<Rightarrow> rat \<Rightarrow> bool \<Rightarrow> rat WalletBalances \<Rightarrow>
     rat TradeResult" where
  "result_aggregator rq t cv spent off_quote bal =
     \<lparr>success = (error t = None \<and> error cv = None),
      target = t, cover = cv, total_spent = spent, final_balances = bal,
      warnings = Some (leg_warning ''target'' (target_position rq) t @
                       leg_warning ''cover'' (cover_position rq) cv @
                       price_warning t cv off_quote)\<rparr>"

text \<open>Modelled from the spec: one execution (section 2, control flow), orchestrator then
  aggregator: the result, the calls made, and the state afterwards.\<close>

definition execute ::
  "'w Clients \<Rightarrow> rat ExecutionRequest \<Rightarrow> 'w \<Rightarrow> rat TradeResult \<times> Call list \<times> 'w" where
  "execute c rq w =
     (case pair_orchestrator c rq w of
        ((t, cv, spent), calls, w') \<Rightarrow>
          (result_aggregator rq t cv spent (fills_off_quote c w') (read_balances c w'),
           calls, w'))"

section \<open>Concrete data for the examples\<close>

text \<open>A parse function for the examples. On a string of one to fifteen decimal digits
  it returns the number \<^verbatim>\<open>parseFloat\<close> returns there, and on the empty string and on
  \<^verbatim>\<open>abc\<close> it returns \<open>NaN\<close> as \<^verbatim>\<open>parseFloat\<close> does; the examples apply it to such
  strings only. \<open>digits_value\<close> reads the digits from the left.\<close>

fun digits_value :: "nat \<Rightarrow> string \<Rightarrow> nat option" where
  "digits_value acc [] = Some acc"
| "digits_value acc (c # cs) =
     (if 48 \<le> (of_char c :: nat) \<and> (of_char c :: nat) \<le> 57
      then digits_value (10 * acc + (of_char c - 48)) cs
      else None)"

definition parse_digits :: "string \<Rightarrow> number" where
  "parse_digits a =
     (if a = [] then NaN
      else (case digits_value 0 a of None \<Rightarrow> NaN | Some n \<Rightarrow> Fin (of_nat n)))"

definition example_portfolio :: Portfolio where
  "example_portfolio =
     \<lparr>pair_id = ''pair-1'',
      target_market_id = ''market-a'', target_position = YES,
      cover_market_id = ''market-b'', cover_position = NO,
      target_question = ''Will A happen?'', target_price = Fin (3 / 5),
      cover_question = ''Will B happen?'', cover_price = Fin (3 / 10)\<rparr>"

text \<open>An unlocked wallet holding the given USDC.e balance, and the purchase form of a
  modal over it with the given text in the amount field.\<close>

definition wallet_with :: "rat \<Rightarrow> WalletStatus" where
  "wallet_with b =
     \<lparr>exists_wallet = True, address = Some ''0xabc'', unlocked = True,
      balances = Some \<lparr>pol = Fin 1, usdc_e = Fin b\<rparr>, approvals_set = True\<rparr>"

definition form_with :: "rat \<Rightarrow> string \<Rightarrow> Modal" where
  "form_with b a = (initial (Some (wallet_with b)) False)\<lparr>amount := a\<rparr>"

text \<open>A result in which the target leg failed after its split and the cover leg failed
  at its split: \<^verbatim>\<open>success\<close> is false and there is one warning.\<close>

definition failed_with_warning :: "number TradeResult" where
  "failed_with_warning =
     \<lparr>success = False,
      target = \<lparr>split_tx = Some ''0x01'', clob_order_id = None, error = Some ''sell failed''\<rparr>,
      cover = \<lparr>split_tx = None, clob_order_id = None, error = Some ''gas error''\<rparr>,
      total_spent = Fin 10,
      final_balances = \<lparr>pol = Fin 1, usdc_e = Fin 90\<rparr>,
      warnings = Some [''position not fully hedged'']\<rparr>"

text \<open>The state of the example form after Confirm Purchase was clicked.\<close>

definition example_executing :: Modal where
  "example_executing = fst (react parse_digits example_portfolio (form_with 100 ''10'') ClickConfirm)"

text \<open>A result in which both splits failed and nothing was spent.\<close>

definition failed_first_split :: "number TradeResult" where
  "failed_first_split =
     \<lparr>success = False,
      target = \<lparr>split_tx = None, clob_order_id = None, error = Some ''gas error''\<rparr>,
      cover = \<lparr>split_tx = None, clob_order_id = None, error = Some ''gas error''\<rparr>,
      total_spent = Fin 0,
      final_balances = \<lparr>pol = Fin 1, usdc_e = Fin 100\<rparr>,
      warnings = None\<rparr>"

text \<open>An example of collaborators, over a state that counts their calls: the split
  fails with "gas error" on the market \<open>market-a\<close> and succeeds elsewhere, and every
  sell succeeds; the argument says whether the sells are realized off the quoted prices.
  The example request asks for 10 per position on the given target market.\<close>

definition example_clients :: "bool \<Rightarrow> nat Clients" where
  "example_clients off_quote =
     \<lparr>chain_split = (\<lambda>w market amt.
        (if market = ''market-a'' then Inl ''gas error'' else Inr ''0xb1'', Suc w)),
      book_sell = (\<lambda>w market outcome amt. (Inr ''order-1'', Suc w)),
      read_balances = (\<lambda>w. \<lparr>pol = 1, usdc_e = 90\<rparr>),
      fills_off_quote = (\<lambda>w. off_quote)\<rparr>"

definition example_request :: "string \<Rightarrow> rat ExecutionRequest" where
  "example_request target_market =
     \<lparr>pair_id = ''pair-1'',
      target_market_id = target_market, target_position = YES,
      cover_market_id = ''market-b'', cover_position = NO,
      amount_per_position = 10, skip_clob_sell = False\<rparr>"

text \<open>The same wallet while it is locked.\<close>

definition locked_wallet_with :: "rat \<Rightarrow> WalletStatus" where
  "locked_wallet_with b = (wallet_with b)\<lparr>unlocked := False\<rparr>"

text \<open>A result of a failed execution that spent part of the funds: the target leg went
  through with 40, the cover leg failed at its split, and the balance read after the
  execution is 60.\<close>

definition partly_spent :: "number TradeResult" where
  "partly_spent =
     \<lparr>success = False,
      target = \<lparr>split_tx = Some ''0x01'', clob_order_id = Some ''order-1'', error = None\<rparr>,
      cover = \<lparr>split_tx = None, clob_order_id = None, error = Some ''gas error''\<rparr>,
      total_spent = Fin 40,
      final_balances = \<lparr>pol = Fin 1, usdc_e = Fin 60\<rparr>,
      warnings = None\<rparr>"

text \<open>The return of an awaited unlock whose refresh fetched the unlocked wallet; and a
  run over a locked wallet in which the password is typed, Enter is pressed twice, the
  first unlock returns, and Confirm Purchase is clicked while the second unlock is still
  awaited.\<close>

definition late_unlock :: Event where
  "late_unlock = UnlockSettled (Inr (Some (wallet_with 100)))"

definition purchase_during_unlock :: "Event list" where
  "purchase_during_unlock =
     [ChangePassword ''pw'', PressEnter, PressEnter, late_unlock, ClickConfirm]"

section \<open>Properties of the purchase modal\<close>

subsection \<open>Numbers\<close>

lemma js_or_not_NaN: "d \<noteq> NaN \<Longrightarrow> js_or x d \<noteq> NaN"
  by (auto simp: js_or_def truthy_def split: option.splits)

lemma js_times_two_not_NaN: "x \<noteq> NaN \<Longrightarrow> js_times x (Fin 2) \<noteq> NaN"
  by (cases x) simp_all

lemma amountNum_not_NaN: "amountNum parseFloat s \<noteq> NaN"
  by (simp add: amountNum_def js_or_not_NaN)

lemma totalCost_not_NaN: "totalCost parseFloat s \<noteq> NaN"
  by (simp add: totalCost_def js_times_two_not_NaN amountNum_not_NaN)

lemma usdc_e_balance_not_NaN: "usdc_e_balance s \<noteq> NaN"
  by (simp add: usdc_e_balance_def js_or_not_NaN)

lemma not_js_ge_iff: "a \<noteq> NaN \<Longrightarrow> b \<noteq> NaN \<Longrightarrow> (\<not> js_ge a b) = js_lt a b"
  by (simp add: js_ge_def)

lemma hasSufficientBalance_iff:
  "hasSufficientBalance parseFloat s = (\<not> js_gt (totalCost parseFloat s) (usdc_e_balance s))"
  using not_js_ge_iff [OF usdc_e_balance_not_NaN totalCost_not_NaN, of s parseFloat]
  by (auto simp: hasSufficientBalance_def js_gt_def)

lemma meetsMinimum_iff:
  "meetsMinimum parseFloat s = (\<not> js_lt (amountNum parseFloat s) MIN_AMOUNT)"
  using not_js_ge_iff [OF amountNum_not_NaN, of MIN_AMOUNT parseFloat s]
  by (auto simp: meetsMinimum_def MIN_AMOUNT_def)

lemma parse_digits_10: "parse_digits ''10'' = Fin 10"
  by (simp add: parse_digits_def)

lemma parse_digits_5: "parse_digits ''5'' = Fin 5"
  by (simp add: parse_digits_def)

subsection \<open>Requests are sent by the Confirm Purchase button only\<close>

lemma react_requests:
  "snd (react parseFloat p s e) =
     (if e = ClickConfirm \<and> shows_input s \<and> \<not> confirm_disabled parseFloat s
      then [request_body parseFloat p s] else [])"
  by (cases e) (auto simp: handleBuy_def confirm_disabled_def)

text \<open>
  C1. Whenever twice the amount exceeds the USDC.e balance the modal holds
  (\<^verbatim>\<open>amountNum * 2 > (status?.balances?.usdc_e || 0)\<close>), \<^verbatim>\<open>handleBuy\<close> sets the error
  "Insufficient USDC.e balance" and returns without sending a request and without
  changing anything else; and in such a state no event at all sends a request to the
  trading endpoint.
\<close>

theorem insufficient_balance_rejected:
  "js_gt (totalCost parseFloat s) (usdc_e_balance s) \<Longrightarrow>
     handleBuy parseFloat p s = (s\<lparr>error_state := Some ''Insufficient USDC.e balance''\<rparr>, []) \<and>
     snd (react parseFloat p s e) = []"
  by (simp add: react_requests confirm_disabled_def handleBuy_def hasSufficientBalance_iff)

theorem insufficient_balance_rejected_witness:
  "js_gt (totalCost parse_digits (form_with 3 ''10'')) (usdc_e_balance (form_with 3 ''10'')) \<and>
   handleBuy parse_digits example_portfolio (form_with 3 ''10'') =
     ((form_with 3 ''10'')\<lparr>error_state := Some ''Insufficient USDC.e balance''\<rparr>, []) \<and>
   snd (react parse_digits example_portfolio (form_with 3 ''10'') ClickConfirm) = []"
proof -
  have over: "js_gt (totalCost parse_digits (form_with 3 ''10'')) (usdc_e_balance (form_with 3 ''10''))"
    by (simp add: js_gt_def totalCost_def amountNum_def usdc_e_balance_def form_with_def
        initial_def wallet_with_def js_or_def truthy_def parse_digits_10)
  from insufficient_balance_rejected [OF over, of example_portfolio ClickConfirm] over
  show ?thesis by simp
qed

lemma react_enters_executing:
  "step (fst (react parseFloat p s e)) = Executing \<Longrightarrow> step s \<noteq> Executing \<Longrightarrow>
     e = ClickConfirm \<and> shows_input s \<and> \<not> confirm_disabled parseFloat s"
  by (cases e)
    (auto simp: handleBuy_def handleBuy_settled_def try_again_def refresh_def handleUnlock_def
      handleUnlock_settled_def confirm_disabled_def
      split: if_splits FetchOutcome.splits option.splits sum.splits)

lemma run_requests:
  assumes "\<And>s e. \<forall>r \<in> set (snd (react parseFloat p s e)). P r"
  shows "\<forall>r \<in> set (snd (run parseFloat p s es)). P r"
proof (induction es arbitrary: s)
  case Nil
  show ?case by simp
next
  case (Cons e es)
  obtain s' rs where step1: "react parseFloat p s e = (s', rs)"
    by (cases "react parseFloat p s e")
  obtain s'' rs' where rest: "run parseFloat p s' es = (s'', rs')"
    by (cases "run parseFloat p s' es")
  have "\<forall>r \<in> set rs. P r"
    using assms [of s e] step1 by simp
  moreover have "\<forall>r \<in> set rs'. P r"
    using Cons.IH [of s'] rest by simp
  ultimately show ?case
    using step1 rest by auto
qed

lemma request_meets_checks:
  "r \<in> set (snd (react parseFloat p s e)) \<Longrightarrow>
     r = request_body parseFloat p s \<and> shows_input s \<and>
     hasSufficientBalance parseFloat s \<and> meetsMinimum parseFloat s"
  by (auto simp: react_requests confirm_disabled_def split: if_splits)

lemma example_form_enabled:
  "shows_input (form_with 100 ''10'') \<and> \<not> confirm_disabled parse_digits (form_with 100 ''10'')"
  by (simp add: shows_input_def needsUnlock_def confirm_disabled_def
      hasSufficientBalance_def meetsMinimum_def totalCost_def amountNum_def usdc_e_balance_def
      form_with_def initial_def wallet_with_def js_or_def truthy_def js_ge_def MIN_AMOUNT_def
      parse_digits_10)

lemma example_run_sends:
  "snd (run parse_digits example_portfolio (form_with 100 ''10'') [ClickConfirm]) =
     [request_body parse_digits example_portfolio (form_with 100 ''10'')]"
proof -
  have "snd (react parse_digits example_portfolio (form_with 100 ''10'') ClickConfirm) =
      [request_body parse_digits example_portfolio (form_with 100 ''10'')]"
    using example_form_enabled by (simp only: react_requests if_True simp_thms)
  then show ?thesis
    by (cases "react parse_digits example_portfolio (form_with 100 ''10'') ClickConfirm") simp
qed

text \<open>
  C2. In a state whose amount is below the minimum order size (\<^verbatim>\<open>amountNum < 5\<close>) no
  event sends a request to the trading endpoint and no event moves the modal into the
  step \<^verbatim>\<open>'executing'\<close>: the only element that starts an execution is the Confirm Purchase
  button, which is disabled there. Hence every request sent in any run, from any state,
  carries an amount of at least 5.
\<close>

theorem below_minimum_never_executes:
  "(js_lt (amountNum parseFloat s) MIN_AMOUNT \<longrightarrow>
      snd (react parseFloat p s e) = [] \<and>
      (step (fst (react parseFloat p s e)) = Executing \<longrightarrow> step s = Executing)) \<and>
   (\<forall>r \<in> set (snd (run parseFloat p s es)). js_ge (amount_per_position r) MIN_AMOUNT)"
proof (intro conjI impI)
  assume below: "js_lt (amountNum parseFloat s) MIN_AMOUNT"
  then have disabled: "confirm_disabled parseFloat s"
    by (simp add: confirm_disabled_def meetsMinimum_iff)
  then show "snd (react parseFloat p s e) = []"
    by (simp add: react_requests)
  assume "step (fst (react parseFloat p s e)) = Executing"
  with disabled show "step s = Executing"
    using react_enters_executing [of parseFloat p s e] by blast
next
  have "\<And>s e. \<forall>r \<in> set (snd (react parseFloat p s e)). js_ge (amount_per_position r) MIN_AMOUNT"
    using request_meets_checks by (fastforce simp: request_body_def meetsMinimum_def)
  then show "\<forall>r \<in> set (snd (run parseFloat p s es)). js_ge (amount_per_position r) MIN_AMOUNT"
    by (rule run_requests)
qed

theorem below_minimum_never_executes_witness:
  "js_lt (amountNum parse_digits (form_with 100 ''3'')) MIN_AMOUNT \<and>
   react parse_digits example_portfolio (form_with 100 ''3'') ClickConfirm = (form_with 100 ''3'', []) \<and>
   snd (run parse_digits example_portfolio (form_with 100 ''10'') [ClickConfirm]) =
     [request_body parse_digits example_portfolio (form_with 100 ''10'')] \<and>
   js_ge (amount_per_position (request_body parse_digits example_portfolio (form_with 100 ''10''))) MIN_AMOUNT"
proof -
  have three: "parse_digits ''3'' = Fin 3"
    by (simp add: parse_digits_def)
  have below: "js_lt (amountNum parse_digits (form_with 100 ''3'')) MIN_AMOUNT"
    by (simp add: amountNum_def form_with_def initial_def js_or_def truthy_def three MIN_AMOUNT_def)
  have none: "react parse_digits example_portfolio (form_with 100 ''3'') ClickConfirm = (form_with 100 ''3'', [])"
    using below by (simp add: confirm_disabled_def meetsMinimum_iff)
  note sent = example_run_sends
  from below_minimum_never_executes
    [of parse_digits "form_with 100 ''10''" example_portfolio ClickConfirm "[ClickConfirm]"] sent
  have "js_ge (amount_per_position (request_body parse_digits example_portfolio (form_with 100 ''10''))) MIN_AMOUNT"
    by simp
  with below none sent show ?thesis by simp
qed

text \<open>
  C9. Every request the modal sends to \<^verbatim>\<open>/trading/buy-pair\<close>, in any run from any
  state, for every portfolio and amount, has \<^verbatim>\<open>skip_clob_sell\<close> false.
\<close>

theorem never_requests_split_only:
  "\<forall>r \<in> set (snd (run parseFloat p s es)). skip_clob_sell r = False"
proof (rule run_requests)
  fix s e
  show "\<forall>r \<in> set (snd (react parseFloat p s e)). skip_clob_sell r = False"
    using request_meets_checks by (fastforce simp: request_body_def)
qed

theorem never_requests_split_only_witness:
  "snd (run parse_digits example_portfolio (form_with 100 ''10'') [ClickConfirm]) \<noteq> [] \<and>
   skip_clob_sell (hd (snd (run parse_digits example_portfolio (form_with 100 ''10'') [ClickConfirm]))) = False"
proof -
  note sent = example_run_sends
  from never_requests_split_only
    [of parse_digits example_portfolio "form_with 100 ''10''" "[ClickConfirm]"] sent
  show ?thesis by simp
qed

text \<open>
  C10. When the text of the amount field parses to \<open>NaN\<close> or to zero, the derived
  amount is 0, the minimum is not met, the Confirm Purchase button is disabled and a
  click on it changes nothing and sends nothing. No request sent in any run, from any
  state, carries the amount 0.
\<close>

theorem zero_amount_never_submitted:
  "(parseFloat (amount s) = NaN \<or> parseFloat (amount s) = Fin 0 \<longrightarrow>
      amountNum parseFloat s = Fin 0 \<and> \<not> meetsMinimum parseFloat s \<and>
      confirm_disabled parseFloat s \<and>
      react parseFloat p s ClickConfirm = (s, [])) \<and>
   (\<forall>r \<in> set (snd (run parseFloat p s es)). amount_per_position r \<noteq> Fin 0)"
proof (intro conjI impI)
  assume "parseFloat (amount s) = NaN \<or> parseFloat (amount s) = Fin 0"
  then show zero: "amountNum parseFloat s = Fin 0"
    by (auto simp: amountNum_def js_or_def truthy_def)
  then show low: "\<not> meetsMinimum parseFloat s"
    by (simp add: meetsMinimum_def js_ge_def MIN_AMOUNT_def)
  then show "confirm_disabled parseFloat s"
    by (simp add: confirm_disabled_def)
  then show "react parseFloat p s ClickConfirm = (s, [])"
    by simp
next
  have "\<And>s e. \<forall>r \<in> set (snd (react parseFloat p s e)). amount_per_position r \<noteq> Fin 0"
    using request_meets_checks
    by (fastforce simp: request_body_def meetsMinimum_def js_ge_def MIN_AMOUNT_def)
  then show "\<forall>r \<in> set (snd (run parseFloat p s es)). amount_per_position r \<noteq> Fin 0"
    by (rule run_requests)
qed

theorem zero_amount_never_submitted_witness:
  "parse_digits (amount (form_with 100 ''abc'')) = NaN \<and>
   amountNum parse_digits (form_with 100 ''abc'') = Fin 0 \<and>
   confirm_disabled parse_digits (form_with 100 ''abc'') \<and>
   react parse_digits example_portfolio (form_with 100 ''abc'') ClickConfirm = (form_with 100 ''abc'', [])"
proof -
  have nan: "parse_digits (amount (form_with 100 ''abc'')) = NaN"
    by (simp add: form_with_def initial_def parse_digits_def)
  with zero_amount_never_submitted [of parse_digits "form_with 100 ''abc''" example_portfolio "[]"]
  show ?thesis by simp
qed

text \<open>
  X1. \<^verbatim>\<open>handleBuy\<close> itself checks the balance only: called with a sufficient balance it
  enters \<^verbatim>\<open>'executing'\<close> and sends the request whatever the amount, also below the
  minimum. The minimum is enforced by the \<^verbatim>\<open>disabled\<close> attribute of the button alone.
\<close>

theorem handleBuy_checks_balance_only:
  "hasSufficientBalance parseFloat s \<Longrightarrow>
     handleBuy parseFloat p s =
       (s\<lparr>step := Executing, error_state := None,
          executionStep := ''Splitting target position...'',
          in_flight := Suc (in_flight s)\<rparr>,
        [request_body parseFloat p s])"
  by (simp add: handleBuy_def)

theorem handleBuy_checks_balance_only_witness:
  "hasSufficientBalance parse_digits (form_with 100 ''3'') \<and>
   \<not> meetsMinimum parse_digits (form_with 100 ''3'') \<and>
   snd (handleBuy parse_digits example_portfolio (form_with 100 ''3'')) =
     [request_body parse_digits example_portfolio (form_with 100 ''3'')]"
proof -
  have three: "amountNum parse_digits (form_with 100 ''3'') = Fin 3"
    by (simp add: amountNum_def form_with_def initial_def js_or_def truthy_def parse_digits_def)
  have cost: "totalCost parse_digits (form_with 100 ''3'') = Fin 6"
    by (simp add: totalCost_def three)
  have held: "usdc_e_balance (form_with 100 ''3'') = Fin 100"
    by (simp add: usdc_e_balance_def form_with_def initial_def wallet_with_def js_or_def
        truthy_def)
  have enough: "hasSufficientBalance parse_digits (form_with 100 ''3'')"
    by (simp add: hasSufficientBalance_def cost held js_ge_def)
  have low: "\<not> meetsMinimum parse_digits (form_with 100 ''3'')"
    by (simp add: meetsMinimum_def three js_ge_def MIN_AMOUNT_def)
  from handleBuy_checks_balance_only [OF enough, of example_portfolio] enough low
  show ?thesis by simp
qed

subsection \<open>The precondition at the minimum amount\<close>

lemma form_with_5: "amountNum parse_digits (form_with 3 ''5'') = Fin 5"
  by (simp add: amountNum_def form_with_def initial_def js_or_def truthy_def parse_digits_5)

lemma form_with_3_balance: "usdc_e_balance (form_with 3 a) = Fin 3"
  by (simp add: usdc_e_balance_def form_with_def initial_def wallet_with_def js_or_def truthy_def)

text \<open>
  C4, as the claim states it, fails: with balance 3 and amount 5 the amount meets the
  minimum (\<^verbatim>\<open>5 >= 5\<close>), the notice "Minimum $5 required" is not rendered, and what
  \<^verbatim>\<open>handleBuy\<close> reports is the insufficient balance.
\<close>

theorem minimum_before_balance_counterexample:
  "usdc_e_balance (form_with 3 ''5'') = Fin 3 \<and>
   amountNum parse_digits (form_with 3 ''5'') = Fin 5 \<and>
   meetsMinimum parse_digits (form_with 3 ''5'') \<and>
   \<not> shows_minimum_notice parse_digits (form_with 3 ''5'') \<and>
   \<not> hasSufficientBalance parse_digits (form_with 3 ''5'') \<and>
   handleBuy parse_digits example_portfolio (form_with 3 ''5'') =
     ((form_with 3 ''5'')\<lparr>error_state := Some ''Insufficient USDC.e balance''\<rparr>, [])"
  by (simp add: form_with_5 form_with_3_balance meetsMinimum_def shows_minimum_notice_def
      hasSufficientBalance_def totalCost_def handleBuy_def js_ge_def MIN_AMOUNT_def)

text \<open>
  C4, amended. An amount of exactly 5 meets the minimum, so it raises no below-minimum
  notice. Whenever twice the amount exceeds the balance, whether or not the amount is
  also below the minimum, the button is disabled and the rejection \<^verbatim>\<open>handleBuy\<close> reports
  is the insufficient balance: the balance check is the only check \<^verbatim>\<open>handleBuy\<close> makes, and
  the first operand of the button's \<^verbatim>\<open>disabled\<close> condition. With balance 3 and amount 5
  the outcome is therefore the insufficient-balance rejection.
\<close>

theorem balance_check_decides_rejection:
  "(amountNum parseFloat s = Fin 5 \<longrightarrow>
      meetsMinimum parseFloat s \<and> \<not> shows_minimum_notice parseFloat s) \<and>
   (js_gt (totalCost parseFloat s) (usdc_e_balance s) \<longrightarrow>
      confirm_disabled parseFloat s \<and>
      handleBuy parseFloat p s = (s\<lparr>error_state := Some ''Insufficient USDC.e balance''\<rparr>, []))"
  by (simp add: meetsMinimum_def shows_minimum_notice_def js_ge_def MIN_AMOUNT_def
      confirm_disabled_def handleBuy_def hasSufficientBalance_iff)

theorem balance_check_decides_rejection_witness:
  "amountNum parse_digits (form_with 3 ''5'') = Fin 5 \<and>
   js_gt (totalCost parse_digits (form_with 3 ''5'')) (usdc_e_balance (form_with 3 ''5'')) \<and>
   meetsMinimum parse_digits (form_with 3 ''5'') \<and>
   confirm_disabled parse_digits (form_with 3 ''5'') \<and>
   handleBuy parse_digits example_portfolio (form_with 3 ''5'') =
     ((form_with 3 ''5'')\<lparr>error_state := Some ''Insufficient USDC.e balance''\<rparr>, [])"
proof -
  have over: "js_gt (totalCost parse_digits (form_with 3 ''5'')) (usdc_e_balance (form_with 3 ''5''))"
    by (simp add: js_gt_def totalCost_def form_with_5 form_with_3_balance)
  from balance_check_decides_rejection [of parse_digits "form_with 3 ''5''" example_portfolio]
    form_with_5 over
  show ?thesis by simp
qed

subsection \<open>How a received result is presented\<close>

lemma example_executing_eq:
  "example_executing =
     (form_with 100 ''10'')\<lparr>step := Executing, error_state := None,
        executionStep := ''Splitting target position...'', in_flight := 1\<rparr>"
  using example_form_enabled
  by (simp add: example_executing_def handleBuy_def confirm_disabled_def form_with_def initial_def)

text \<open>
  C3, as the claim states it, fails: a received result with \<^verbatim>\<open>success\<close> false and one
  warning is presented under the heading "Trade Failed", not as a partial success.
\<close>

theorem partial_success_counterexample:
  "\<not> success failed_with_warning \<and> has_warnings failed_with_warning \<and>
   step (fst (react parse_digits example_portfolio example_executing
                (FetchSettled (HttpOk failed_with_warning)))) = Error \<and>
   outcome_heading (fst (react parse_digits example_portfolio example_executing
                (FetchSettled (HttpOk failed_with_warning)))) = Some ''Trade Failed''"
  by (simp add: example_executing_eq handleBuy_settled_def outcome_heading_def
      failed_with_warning_def has_warnings_def)

text \<open>
  C3, amended. For every result received with an ok response, the step and the heading
  shown are decided by the \<^verbatim>\<open>success\<close> flag and the \<^verbatim>\<open>warnings\<close> array alone: \<^verbatim>\<open>success\<close> true
  without warnings is "Purchase Complete", \<^verbatim>\<open>success\<close> true with at least one warning is
  "Partial Success", and \<^verbatim>\<open>success\<close> false is "Trade Failed", with or without warnings.
\<close>

theorem outcome_decided_by_success_and_warnings:
  "0 < in_flight s \<Longrightarrow>
     step (fst (react parseFloat p s (FetchSettled (HttpOk r)))) =
       (if success r then Success else Error) \<and>
     outcome_heading (fst (react parseFloat p s (FetchSettled (HttpOk r)))) =
       Some (if success r then (if has_warnings r then ''Partial Success'' else ''Purchase Complete'')
             else ''Trade Failed'')"
  by (simp add: handleBuy_settled_def outcome_heading_def)

theorem outcome_decided_by_success_and_warnings_witness:
  "0 < in_flight example_executing \<and>
   outcome_heading (fst (react parse_digits example_portfolio example_executing
       (FetchSettled (HttpOk (failed_with_warning\<lparr>success := True\<rparr>))))) = Some ''Partial Success'' \<and>
   outcome_heading (fst (react parse_digits example_portfolio example_executing
       (FetchSettled (HttpOk (failed_with_warning\<lparr>success := True, warnings := None\<rparr>))))) =
     Some ''Purchase Complete''"
proof -
  have pending: "0 < in_flight example_executing"
    by (simp add: example_executing_eq)
  from outcome_decided_by_success_and_warnings
         [OF pending, of parse_digits example_portfolio "failed_with_warning\<lparr>success := True\<rparr>"]
       outcome_decided_by_success_and_warnings
         [OF pending, of parse_digits example_portfolio
            "failed_with_warning\<lparr>success := True, warnings := None\<rparr>"]
       pending
  show ?thesis
    by (simp add: failed_with_warning_def has_warnings_def)
qed

subsection \<open>The steps of the purchase flow\<close>

lemma fst_run_Cons:
  "fst (run parseFloat p s (e # es)) = fst (run parseFloat p (fst (react parseFloat p s e)) es)"
  by (cases "react parseFloat p s e"; cases "run parseFloat p (fst (react parseFloat p s e)) es") simp

lemma snd_run_Cons:
  "snd (run parseFloat p s (e # es)) =
     snd (react parseFloat p s e) @ snd (run parseFloat p (fst (react parseFloat p s e)) es)"
  by (cases "react parseFloat p s e"; cases "run parseFloat p (fst (react parseFloat p s e)) es") simp

lemma fst_run_append:
  "fst (run parseFloat p s (es @ fs)) = fst (run parseFloat p (fst (run parseFloat p s es)) fs)"
  by (induction es arbitrary: s) (simp_all only: append.simps fst_run_Cons run.simps(1) fst_conv)

lemma snd_run_append:
  "snd (run parseFloat p s (es @ fs)) =
     snd (run parseFloat p s es) @ snd (run parseFloat p (fst (run parseFloat p s es)) fs)"
  by (induction es arbitrary: s)
    (simp_all only: append.simps fst_run_Cons snd_run_Cons run.simps(1) fst_conv snd_conv
      append_assoc)

text \<open>
  X2. What holds of the steps in every state, for every event: \<^verbatim>\<open>'executing'\<close> is entered
  only from \<^verbatim>\<open>'input'\<close>, by Confirm Purchase, with the balance check and the minimum check
  passed; \<^verbatim>\<open>'success'\<close> and \<^verbatim>\<open>'error'\<close> are entered only when a suspended \<^verbatim>\<open>handleBuy\<close>
  settles; \<^verbatim>\<open>'input'\<close> is entered only by Try Again from \<^verbatim>\<open>'error'\<close> or when a suspended
  \<^verbatim>\<open>handleUnlock\<close> returns; \<^verbatim>\<open>'unlock'\<close> is never entered; and a request is sent only by
  Confirm Purchase in the step \<^verbatim>\<open>'input'\<close>, so nothing is retried unasked.
\<close>

theorem flow_steps_safety:
  "s' = fst (react parseFloat p s e) \<Longrightarrow>
   (step s' = Executing \<and> step s \<noteq> Executing \<longrightarrow>
      step s = Input \<and> e = ClickConfirm \<and>
      hasSufficientBalance parseFloat s \<and> meetsMinimum parseFloat s) \<and>
   ((step s' = Success \<or> step s' = Error) \<and> step s' \<noteq> step s \<longrightarrow>
      0 < in_flight s \<and> (\<exists>out. e = FetchSettled out)) \<and>
   (step s' = Input \<and> step s \<noteq> Input \<longrightarrow>
      (step s = Error \<and> e = ClickTryAgain) \<or>
      (0 < unlocks_in_flight s \<and> (\<exists>fetched. e = UnlockSettled (Inr fetched)))) \<and>
   (step s' = Unlock \<longrightarrow> step s = Unlock) \<and>
   (snd (react parseFloat p s e) \<noteq> [] \<longrightarrow> step s = Input \<and> e = ClickConfirm)"
proof -
  assume s': "s' = fst (react parseFloat p s e)"
  have enter: "step s' = Executing \<Longrightarrow> step s \<noteq> Executing \<Longrightarrow>
      step s = Input \<and> e = ClickConfirm \<and>
      hasSufficientBalance parseFloat s \<and> meetsMinimum parseFloat s"
    unfolding s' using react_enters_executing [of parseFloat p s e]
    by (simp add: confirm_disabled_def shows_input_def)
  have other: "step s' \<noteq> step s \<Longrightarrow> step s' \<noteq> Executing \<Longrightarrow>
      ((step s' = Success \<or> step s' = Error) \<and> 0 < in_flight s \<and> (\<exists>out. e = FetchSettled out)) \<or>
      (step s' = Input \<and> step s = Error \<and> e = ClickTryAgain) \<or>
      (step s' = Input \<and> 0 < unlocks_in_flight s \<and> (\<exists>fetched. e = UnlockSettled (Inr fetched)))"
    unfolding s'
    by (cases e)
      (auto simp: handleBuy_def handleBuy_settled_def try_again_def refresh_def handleUnlock_def
        handleUnlock_settled_def
        split: if_splits FetchOutcome.splits option.splits sum.splits)
  have sends: "snd (react parseFloat p s e) \<noteq> [] \<Longrightarrow> step s = Input \<and> e = ClickConfirm"
    by (simp add: react_requests shows_input_def split: if_splits)
  show ?thesis
    using enter other sends by (cases "step s'"; cases "step s") auto
qed

theorem flow_steps_safety_witness:
  "step example_executing = Executing \<and>
   step (form_with 100 ''10'') = Input \<and>
   hasSufficientBalance parse_digits (form_with 100 ''10'') \<and>
   meetsMinimum parse_digits (form_with 100 ''10'')"
proof -
  have executing: "step example_executing = Executing"
    by (simp add: example_executing_eq)
  have input: "step (form_with 100 ''10'') = Input"
    by (simp add: form_with_def initial_def)
  from flow_steps_safety
    [of example_executing parse_digits example_portfolio "form_with 100 ''10''" ClickConfirm]
    executing input
  show ?thesis
    by (simp add: example_executing_def)
qed

lemma purchase_during_unlock_state:
  "fst (run parse_digits example_portfolio (initial (Some (locked_wallet_with 100)) False)
        purchase_during_unlock) =
     (initial (Some (wallet_with 100)) False)
       \<lparr>step := Executing, executionStep := ''Splitting target position...'',
        in_flight := 1, unlocks_in_flight := 1\<rparr>"
proof -
  let ?s0 = "initial (Some (locked_wallet_with 100)) False"
  have s1: "fst (react parse_digits example_portfolio ?s0 (ChangePassword ''pw'')) =
      ?s0\<lparr>password := ''pw''\<rparr>"
    by (simp add: shows_unlock_def needsUnlock_def initial_def locked_wallet_with_def
        wallet_with_def)
  have s2: "fst (react parse_digits example_portfolio (?s0\<lparr>password := ''pw''\<rparr>) PressEnter) =
      ?s0\<lparr>password := ''pw'', unlocking := True, unlocks_in_flight := 1\<rparr>"
    by (simp add: shows_unlock_def needsUnlock_def initial_def locked_wallet_with_def
        wallet_with_def handleUnlock_def)
  have s3: "fst (react parse_digits example_portfolio
      (?s0\<lparr>password := ''pw'', unlocking := True, unlocks_in_flight := 1\<rparr>) PressEnter) =
      ?s0\<lparr>password := ''pw'', unlocking := True, unlocks_in_flight := 2\<rparr>"
    by (simp add: shows_unlock_def needsUnlock_def initial_def locked_wallet_with_def
        wallet_with_def handleUnlock_def)
  have s4: "fst (react parse_digits example_portfolio
      (?s0\<lparr>password := ''pw'', unlocking := True, unlocks_in_flight := 2\<rparr>) late_unlock) =
      (initial (Some (wallet_with 100)) False)\<lparr>unlocks_in_flight := 1\<rparr>"
    by (simp add: late_unlock_def handleUnlock_settled_def refresh_def initial_def)
  have form: "(initial (Some (wallet_with 100)) False)\<lparr>unlocks_in_flight := 1\<rparr> =
      (form_with 100 ''10'')\<lparr>unlocks_in_flight := 1\<rparr>"
    by (simp add: form_with_def initial_def)
  have enabled: "shows_input ((form_with 100 ''10'')\<lparr>unlocks_in_flight := 1\<rparr>) \<and>
      \<not> confirm_disabled parse_digits ((form_with 100 ''10'')\<lparr>unlocks_in_flight := 1\<rparr>)"
    by (simp add: shows_input_def needsUnlock_def confirm_disabled_def hasSufficientBalance_def
        meetsMinimum_def totalCost_def amountNum_def usdc_e_balance_def form_with_def
        initial_def wallet_with_def js_or_def truthy_def js_ge_def MIN_AMOUNT_def
        parse_digits_10)
  have clicked: "fst (react parse_digits example_portfolio
      ((form_with 100 ''10'')\<lparr>unlocks_in_flight := 1\<rparr>) ClickConfirm) =
      (form_with 100 ''10'')
        \<lparr>unlocks_in_flight := 1, step := Executing, error_state := None,
         executionStep := ''Splitting target position...'',
         in_flight := Suc (in_flight (form_with 100 ''10''))\<rparr>"
    using enabled by (simp add: handleBuy_def confirm_disabled_def)
  have s5: "fst (react parse_digits example_portfolio
      ((initial (Some (wallet_with 100)) False)\<lparr>unlocks_in_flight := 1\<rparr>) ClickConfirm) =
      (initial (Some (wallet_with 100)) False)
        \<lparr>step := Executing, executionStep := ''Splitting target position...'',
         in_flight := 1, unlocks_in_flight := 1\<rparr>"
    unfolding form clicked by (simp add: form_with_def initial_def)
  show ?thesis
    unfolding purchase_during_unlock_def
    by (simp only: fst_run_Cons run.simps(1) fst_conv s1 s2 s3 s4 s5)
qed

text \<open>
  C5 fails on the code at a run in which an unlock is still awaited when the purchase
  starts. With the wallet locked, the password typed and Enter pressed twice, two
  \<^verbatim>\<open>handleUnlock\<close> calls are suspended; the first returns, the purchase form appears, and
  Confirm Purchase enters \<^verbatim>\<open>'executing'\<close> with one request sent. When the second call then
  returns, its \<^verbatim>\<open>setStep('input')\<close> takes the modal from \<^verbatim>\<open>'executing'\<close> to \<^verbatim>\<open>'input'\<close> while
  the request is still awaited; the settling of that request then enters \<^verbatim>\<open>'error'\<close> from
  \<^verbatim>\<open>'input'\<close>. If the request settles first, the late return takes the modal from
  \<^verbatim>\<open>'error'\<close> to \<^verbatim>\<open>'input'\<close> without Try Again.
\<close>

theorem late_unlock_leaves_executing:
  "step (fst (run parse_digits example_portfolio (initial (Some (locked_wallet_with 100)) False)
      purchase_during_unlock)) = Executing \<and>
   length (snd (run parse_digits example_portfolio (initial (Some (locked_wallet_with 100)) False)
      purchase_during_unlock)) = 1 \<and>
   step (fst (run parse_digits example_portfolio (initial (Some (locked_wallet_with 100)) False)
      (purchase_during_unlock @ [late_unlock]))) = Input \<and>
   in_flight (fst (run parse_digits example_portfolio (initial (Some (locked_wallet_with 100)) False)
      (purchase_during_unlock @ [late_unlock]))) = 1 \<and>
   step (fst (run parse_digits example_portfolio (initial (Some (locked_wallet_with 100)) False)
      (purchase_during_unlock @ [late_unlock, FetchSettled (HttpOk failed_first_split)]))) = Error \<and>
   step (fst (run parse_digits example_portfolio (initial (Some (locked_wallet_with 100)) False)
      (purchase_during_unlock @ [FetchSettled (HttpOk failed_first_split)]))) = Error \<and>
   step (fst (run parse_digits example_portfolio (initial (Some (locked_wallet_with 100)) False)
      (purchase_during_unlock @ [FetchSettled (HttpOk failed_first_split), late_unlock]))) = Input"
proof -
  let ?s0 = "initial (Some (locked_wallet_with 100)) False"
  note reached = purchase_during_unlock_state
  have sent: "length (snd (run parse_digits example_portfolio ?s0 purchase_during_unlock)) = 1"
    unfolding purchase_during_unlock_def
    by (simp add: snd_run_Cons react_requests late_unlock_def shows_unlock_def shows_input_def
        needsUnlock_def confirm_disabled_def hasSufficientBalance_def meetsMinimum_def
        totalCost_def amountNum_def usdc_e_balance_def handleUnlock_def handleUnlock_settled_def
        handleBuy_def refresh_def initial_def locked_wallet_with_def wallet_with_def js_or_def truthy_def
        js_ge_def MIN_AMOUNT_def parse_digits_10)
  show ?thesis
    unfolding fst_run_append reached
    using sent
    by (simp add: late_unlock_def handleUnlock_settled_def handleBuy_settled_def refresh_def
        initial_def failed_first_split_def)
qed

subsection \<open>The balance check on a retry\<close>

lemma handleBuy_sends:
  "snd (handleBuy parseFloat p s) =
     (if js_ge (usdc_e_balance s) (totalCost parseFloat s) then [request_body parseFloat p s]
      else [])"
  by (simp add: handleBuy_def hasSufficientBalance_def)

lemma fst_run_three:
  "fst (run parseFloat p s [a, b, c]) =
     fst (react parseFloat p (fst (react parseFloat p (fst (react parseFloat p s a)) b)) c)"
  by (simp only: fst_run_Cons run.simps(1) fst_conv)

text \<open>A failed call followed by Try Again leaves the step \<^verbatim>\<open>'input'\<close>, the amount text,
  the wallet status and the loading flag as they were; the result of the call, with its
  final balances, goes to the cell \<^verbatim>\<open>result\<close> only.\<close>

lemma after_failed_call:
  assumes "step s = Input" and "\<forall>r. out = HttpOk r \<longrightarrow> \<not> success r"
  shows "step (fst (run parseFloat p s [ClickConfirm, FetchSettled out, ClickTryAgain])) = Input \<and>
         amount (fst (run parseFloat p s [ClickConfirm, FetchSettled out, ClickTryAgain])) = amount s \<and>
         status (fst (run parseFloat p s [ClickConfirm, FetchSettled out, ClickTryAgain])) = status s \<and>
         walletLoading (fst (run parseFloat p s [ClickConfirm, FetchSettled out, ClickTryAgain])) =
           walletLoading s"
  unfolding fst_run_three using assms
  by (cases out) (auto simp: handleBuy_def handleBuy_settled_def try_again_def)

lemma same_reading:
  assumes "amount t = amount s" and "status t = status s"
  shows "usdc_e_balance t = usdc_e_balance s" and "totalCost parseFloat t = totalCost parseFloat s"
    and "request_body parseFloat p t = request_body parseFloat p s"
    and "meetsMinimum parseFloat t = meetsMinimum parseFloat s"
    and "hasSufficientBalance parseFloat t = hasSufficientBalance parseFloat s"
  using assms
  by (simp_all add: usdc_e_balance_def totalCost_def amountNum_def request_body_def
      meetsMinimum_def hasSufficientBalance_def)

lemma partly_spent_retry:
  "fst (run parse_digits example_portfolio (form_with 100 ''40'')
        [ClickConfirm, FetchSettled (HttpOk partly_spent), ClickTryAgain]) =
     (form_with 100 ''40'')
       \<lparr>executionStep := ''Splitting target position...'', result := Some partly_spent\<rparr>"
proof -
  have forty: "parse_digits ''40'' = Fin 40"
    by (simp add: parse_digits_def)
  have enabled: "shows_input (form_with 100 ''40'') \<and>
      \<not> confirm_disabled parse_digits (form_with 100 ''40'')"
    by (simp add: shows_input_def needsUnlock_def confirm_disabled_def hasSufficientBalance_def
        meetsMinimum_def totalCost_def amountNum_def usdc_e_balance_def form_with_def
        initial_def wallet_with_def js_or_def truthy_def js_ge_def MIN_AMOUNT_def forty)
  have clicked: "fst (react parse_digits example_portfolio (form_with 100 ''40'') ClickConfirm) =
      (form_with 100 ''40'')
        \<lparr>step := Executing, error_state := None,
         executionStep := ''Splitting target position...'',
         in_flight := Suc (in_flight (form_with 100 ''40''))\<rparr>"
    using enabled by (simp add: handleBuy_def confirm_disabled_def)
  show ?thesis
    unfolding fst_run_three clicked
    by (simp add: handleBuy_settled_def try_again_def partly_spent_def form_with_def initial_def)
qed

text \<open>
  C8, as the claim states it, fails. The first call, with balance 100 held and amount
  40, ends in a failure that spent 40: the result reports the balance 60. After Try Again
  the modal still holds the balance 100 (\<^verbatim>\<open>handleBuy\<close> fetches nothing and the result's
  balances are not read), so the second call with the same input finds 100 to cover the
  total cost 80, enters \<^verbatim>\<open>'executing'\<close> and sends the request, although the balance then
  current, 60, does not cover it.
\<close>

theorem stale_balance_counterexample:
  "result (fst (run parse_digits example_portfolio (form_with 100 ''40'')
      [ClickConfirm, FetchSettled (HttpOk partly_spent), ClickTryAgain])) = Some partly_spent \<and>
   usdc_e (final_balances partly_spent) = Fin 60 \<and>
   totalCost parse_digits (fst (run parse_digits example_portfolio (form_with 100 ''40'')
      [ClickConfirm, FetchSettled (HttpOk partly_spent), ClickTryAgain])) = Fin 80 \<and>
   js_gt (Fin 80) (Fin 60) \<and>
   usdc_e_balance (fst (run parse_digits example_portfolio (form_with 100 ''40'')
      [ClickConfirm, FetchSettled (HttpOk partly_spent), ClickTryAgain])) = Fin 100 \<and>
   step (fst (react parse_digits example_portfolio
      (fst (run parse_digits example_portfolio (form_with 100 ''40'')
        [ClickConfirm, FetchSettled (HttpOk partly_spent), ClickTryAgain])) ClickConfirm)) =
     Executing \<and>
   length (snd (react parse_digits example_portfolio
      (fst (run parse_digits example_portfolio (form_with 100 ''40'')
        [ClickConfirm, FetchSettled (HttpOk partly_spent), ClickTryAgain])) ClickConfirm)) = 1"
  unfolding partly_spent_retry
  by (simp add: js_gt_def partly_spent_def react_requests handleBuy_def shows_input_def
      needsUnlock_def confirm_disabled_def hasSufficientBalance_def meetsMinimum_def
      totalCost_def amountNum_def usdc_e_balance_def form_with_def initial_def wallet_with_def
      js_or_def truthy_def js_ge_def MIN_AMOUNT_def parse_digits_def)

text \<open>
  C8, amended. Every call evaluates the balance precondition when it is made, from the
  balance of the wallet status the modal then holds, that is the status the wallet
  provider last delivered: \<^verbatim>\<open>handleBuy\<close> sends the request exactly when that balance covers
  twice the amount. It fetches no balance itself and reads nothing a previous call
  stored. In particular, after a failed first call and Try Again the modal is at
  \<^verbatim>\<open>'input'\<close> with the same amount and the same held status, so a second call with the
  same input decides as the first did; and once a refresh has delivered a status \<open>st\<close>,
  it decides against the balance of \<open>st\<close>.
\<close>

theorem balance_checked_against_held_status:
  "snd (handleBuy parseFloat p s) =
     (if js_ge (usdc_e_balance s) (totalCost parseFloat s) then [request_body parseFloat p s]
      else []) \<and>
   (step s = Input \<and> (\<forall>r. out = HttpOk r \<longrightarrow> \<not> success r) \<and>
    s2 = fst (run parseFloat p s [ClickConfirm, FetchSettled out, ClickTryAgain]) \<and>
    s3 = fst (react parseFloat p s2 (WalletRefreshed (Some st))) \<longrightarrow>
      step s2 = Input \<and> amount s2 = amount s \<and> status s2 = status s \<and>
      usdc_e_balance s2 = usdc_e_balance s \<and>
      snd (handleBuy parseFloat p s2) = snd (handleBuy parseFloat p s) \<and>
      snd (react parseFloat p s2 ClickConfirm) = snd (react parseFloat p s ClickConfirm) \<and>
      step s3 = Input \<and> amount s3 = amount s \<and> status s3 = Some st \<and>
      snd (handleBuy parseFloat p s3) =
        (if js_ge (js_or (case balances st of None \<Rightarrow> None | Some b \<Rightarrow> Some (usdc_e b)) (Fin 0))
              (totalCost parseFloat s)
         then [request_body parseFloat p s] else []))"
proof (intro conjI impI)
  show "snd (handleBuy parseFloat p s) =
      (if js_ge (usdc_e_balance s) (totalCost parseFloat s) then [request_body parseFloat p s]
       else [])"
    by (rule handleBuy_sends)
next
  assume scenario: "step s = Input \<and> (\<forall>r. out = HttpOk r \<longrightarrow> \<not> success r) \<and>
    s2 = fst (run parseFloat p s [ClickConfirm, FetchSettled out, ClickTryAgain]) \<and>
    s3 = fst (react parseFloat p s2 (WalletRefreshed (Some st)))"
  then have restored: "step s2 = Input \<and> amount s2 = amount s \<and> status s2 = status s \<and>
      walletLoading s2 = walletLoading s"
    using after_failed_call [of s out parseFloat p] by simp
  then show "step s2 = Input" and amount2: "amount s2 = amount s"
    and status2: "status s2 = status s"
    by simp_all
  show "usdc_e_balance s2 = usdc_e_balance s"
    using amount2 status2 by (rule same_reading)
  show "snd (handleBuy parseFloat p s2) = snd (handleBuy parseFloat p s)"
    by (simp only: handleBuy_sends same_reading [OF amount2 status2])
  have form: "shows_input s2 = shows_input s"
    using restored scenario by (simp add: shows_input_def needsUnlock_def)
  show "snd (react parseFloat p s2 ClickConfirm) = snd (react parseFloat p s ClickConfirm)"
    by (simp only: react_requests confirm_disabled_def form same_reading [OF amount2 status2])
  have s3: "s3 = refresh (Some st) s2"
    using scenario by simp
  show "step s3 = Input" and amount3: "amount s3 = amount s" and status3: "status s3 = Some st"
    using restored by (simp_all add: s3 refresh_def)
  have held: "usdc_e_balance s3 =
      js_or (case balances st of None \<Rightarrow> None | Some b \<Rightarrow> Some (usdc_e b)) (Fin 0)"
    using status3 by (simp add: usdc_e_balance_def)
  have cost: "totalCost parseFloat s3 = totalCost parseFloat s"
    using amount3 by (simp add: totalCost_def amountNum_def)
  have body: "request_body parseFloat p s3 = request_body parseFloat p s"
    using amount3 by (simp add: request_body_def amountNum_def)
  show "snd (handleBuy parseFloat p s3) =
      (if js_ge (js_or (case balances st of None \<Rightarrow> None | Some b \<Rightarrow> Some (usdc_e b)) (Fin 0))
            (totalCost parseFloat s)
       then [request_body parseFloat p s] else [])"
    by (simp only: handleBuy_sends held cost body)
qed

theorem balance_checked_against_held_status_witness:
  "step (form_with 100 ''40'') = Input \<and>
   snd (handleBuy parse_digits example_portfolio (form_with 100 ''40'')) =
     [request_body parse_digits example_portfolio (form_with 100 ''40'')] \<and>
   snd (handleBuy parse_digits example_portfolio
     (fst (run parse_digits example_portfolio (form_with 100 ''40'')
        [ClickConfirm, FetchSettled (HttpOk partly_spent), ClickTryAgain]))) =
     [request_body parse_digits example_portfolio (form_with 100 ''40'')] \<and>
   snd (handleBuy parse_digits example_portfolio
     (fst (react parse_digits example_portfolio
        (fst (run parse_digits example_portfolio (form_with 100 ''40'')
           [ClickConfirm, FetchSettled (HttpOk partly_spent), ClickTryAgain]))
        (WalletRefreshed (Some (wallet_with 60)))))) = []"
proof -
  let ?s = "form_with 100 ''40''"
  let ?s2 = "fst (run parse_digits example_portfolio ?s
      [ClickConfirm, FetchSettled (HttpOk partly_spent), ClickTryAgain])"
  let ?s3 = "fst (react parse_digits example_portfolio ?s2 (WalletRefreshed (Some (wallet_with 60))))"
  have input: "step ?s = Input"
    by (simp add: form_with_def initial_def)
  have failed: "\<forall>r. HttpOk partly_spent = HttpOk r \<longrightarrow> \<not> success r"
    by (simp add: partly_spent_def)
  have cost: "totalCost parse_digits ?s = Fin 80"
    by (simp add: totalCost_def amountNum_def form_with_def initial_def js_or_def truthy_def
        parse_digits_def)
  have held: "usdc_e_balance ?s = Fin 100"
    by (simp add: usdc_e_balance_def form_with_def initial_def wallet_with_def js_or_def
        truthy_def)
  have scenario: "step ?s = Input \<and> (\<forall>r. HttpOk partly_spent = HttpOk r \<longrightarrow> \<not> success r) \<and>
      ?s2 = ?s2 \<and> ?s3 = ?s3"
    by (intro conjI refl) (fact input, fact failed)
  note every = balance_checked_against_held_status
    [of parse_digits example_portfolio ?s "HttpOk partly_spent" ?s2 ?s3 "wallet_with 60"]
  note after = every [THEN conjunct2, THEN mp, OF scenario]
  have first: "snd (handleBuy parse_digits example_portfolio ?s) =
      [request_body parse_digits example_portfolio ?s]"
    unfolding every [THEN conjunct1] cost held by (simp add: js_ge_def)
  have second: "snd (handleBuy parse_digits example_portfolio ?s2) =
      [request_body parse_digits example_portfolio ?s]"
    unfolding after [THEN conjunct2, THEN conjunct2, THEN conjunct2, THEN conjunct2, THEN conjunct1]
    by (rule first)
  have low: "\<not> js_ge (js_or (case balances (wallet_with 60) of None \<Rightarrow> None
      | Some b \<Rightarrow> Some (usdc_e b)) (Fin 0)) (Fin 80)"
    by (simp add: wallet_with_def js_or_def truthy_def js_ge_def)
  have third: "snd (handleBuy parse_digits example_portfolio ?s3) = []"
    unfolding after [THEN conjunct2, THEN conjunct2, THEN conjunct2, THEN conjunct2,
        THEN conjunct2, THEN conjunct2, THEN conjunct2, THEN conjunct2, THEN conjunct2] cost
    using low by simp
  show ?thesis
    by (intro conjI) (fact input, fact first, fact second, fact third)
qed

section \<open>Properties of the execution engine\<close>

lemma leg_executor_split_failed:
  "fst (chain_split c w market amt) = Inl e \<Longrightarrow>
     leg_executor c skip market position amt w =
       (\<lparr>split_tx = None, clob_order_id = None, error = Some e\<rparr>,
        [SplitCall market amt], snd (chain_split c w market amt))"
  by (cases "chain_split c w market amt") (simp add: leg_executor_def)

lemma leg_executor_calls:
  "\<exists>rest. fst (snd (leg_executor c skip market position amt w)) = SplitCall market amt # rest"
  by (cases "chain_split c w market amt")
    (auto simp: leg_executor_def split: sum.splits prod.splits)

lemma leg_executor_sold:
  "clob_order_id (fst (leg_executor c skip market position amt w)) \<noteq> None \<Longrightarrow>
     split_tx (fst (leg_executor c skip market position amt w)) \<noteq> None \<and>
     error (fst (leg_executor c skip market position amt w)) = None"
  by (cases "chain_split c w market amt")
    (auto simp: leg_executor_def split: sum.splits prod.splits if_splits)

lemma execute_legs:
  "target (fst (execute c rq w)) =
     fst (leg_executor c (skip_clob_sell rq) (target_market_id rq) (target_position rq)
       (amount_per_position rq) w) \<and>
   cover (fst (execute c rq w)) =
     fst (leg_executor c (skip_clob_sell rq) (cover_market_id rq) (cover_position rq)
       (amount_per_position rq)
       (snd (snd (leg_executor c (skip_clob_sell rq) (target_market_id rq) (target_position rq)
         (amount_per_position rq) w)))) \<and>
   fst (snd (execute c rq w)) =
     fst (snd (leg_executor c (skip_clob_sell rq) (target_market_id rq) (target_position rq)
       (amount_per_position rq) w)) @
     fst (snd (leg_executor c (skip_clob_sell rq) (cover_market_id rq) (cover_position rq)
       (amount_per_position rq)
       (snd (snd (leg_executor c (skip_clob_sell rq) (target_market_id rq) (target_position rq)
         (amount_per_position rq) w))))) \<and>
   total_spent (fst (execute c rq w)) =
     committed (target (fst (execute c rq w))) (amount_per_position rq) +
     committed (cover (fst (execute c rq w))) (amount_per_position rq) \<and>
   success (fst (execute c rq w)) =
     (error (target (fst (execute c rq w))) = None \<and> error (cover (fst (execute c rq w))) = None) \<and>
   warnings (fst (execute c rq w)) =
     Some (leg_warning ''target'' (target_position rq) (target (fst (execute c rq w))) @
           leg_warning ''cover'' (cover_position rq) (cover (fst (execute c rq w))) @
           price_warning (target (fst (execute c rq w))) (cover (fst (execute c rq w)))
             (fills_off_quote c (snd (snd (execute c rq w)))))"
  by (simp add: execute_def pair_orchestrator_def result_aggregator_def split: prod.splits)

text \<open>
  C6. In every execution in which the split of the target leg fails with an error
  \<open>e\<close>, the result has \<open>e\<close> as the target's error and no target split transaction, the
  total spent is what the cover leg committed (the target's amount is not in it), the
  cover leg's outcome is the one the Leg Executor returns for the cover leg in the state
  the failed split left, and the calls made are the target's split followed by the cover
  leg's calls. In every execution, whatever fails, the split of each leg is attempted.
\<close>

theorem target_split_failure_leaves_cover:
  "(fst (chain_split c w (target_market_id rq) (amount_per_position rq)) = Inl e \<longrightarrow>
      error (target (fst (execute c rq w))) = Some e \<and>
      split_tx (target (fst (execute c rq w))) = None \<and>
      total_spent (fst (execute c rq w)) =
        committed (cover (fst (execute c rq w))) (amount_per_position rq) \<and>
      cover (fst (execute c rq w)) =
        fst (leg_executor c (skip_clob_sell rq) (cover_market_id rq) (cover_position rq)
          (amount_per_position rq)
          (snd (chain_split c w (target_market_id rq) (amount_per_position rq)))) \<and>
      fst (snd (execute c rq w)) =
        SplitCall (target_market_id rq) (amount_per_position rq) #
        fst (snd (leg_executor c (skip_clob_sell rq) (cover_market_id rq) (cover_position rq)
          (amount_per_position rq)
          (snd (chain_split c w (target_market_id rq) (amount_per_position rq)))))) \<and>
   SplitCall (target_market_id rq) (amount_per_position rq) \<in> set (fst (snd (execute c rq w))) \<and>
   SplitCall (cover_market_id rq) (amount_per_position rq) \<in> set (fst (snd (execute c rq w)))"
proof (intro conjI impI)
  let ?amt = "amount_per_position rq"
  let ?t = "leg_executor c (skip_clob_sell rq) (target_market_id rq) (target_position rq) ?amt w"
  let ?cv = "leg_executor c (skip_clob_sell rq) (cover_market_id rq) (cover_position rq) ?amt
      (snd (snd ?t))"
  note legs = execute_legs [of c rq w]
  obtain rest_t where rest_t: "fst (snd ?t) = SplitCall (target_market_id rq) ?amt # rest_t"
    using leg_executor_calls
      [of c "skip_clob_sell rq" "target_market_id rq" "target_position rq" ?amt w]
    by auto
  obtain rest_c where rest_c: "fst (snd ?cv) = SplitCall (cover_market_id rq) ?amt # rest_c"
    using leg_executor_calls
      [of c "skip_clob_sell rq" "cover_market_id rq" "cover_position rq" ?amt "snd (snd ?t)"]
    by auto
  show "SplitCall (target_market_id rq) ?amt \<in> set (fst (snd (execute c rq w)))"
    using legs rest_t by simp
  show "SplitCall (cover_market_id rq) ?amt \<in> set (fst (snd (execute c rq w)))"
    using legs rest_c by simp
  assume "fst (chain_split c w (target_market_id rq) ?amt) = Inl e"
  then have failed: "?t = (\<lparr>split_tx = None, clob_order_id = None, error = Some e\<rparr>,
      [SplitCall (target_market_id rq) ?amt], snd (chain_split c w (target_market_id rq) ?amt))"
    by (rule leg_executor_split_failed)
  show "error (target (fst (execute c rq w))) = Some e"
    using legs failed by simp
  show no_tx: "split_tx (target (fst (execute c rq w))) = None"
    using legs failed by simp
  show "total_spent (fst (execute c rq w)) = committed (cover (fst (execute c rq w))) ?amt"
    using legs no_tx by (simp add: committed_def)
  show "cover (fst (execute c rq w)) =
      fst (leg_executor c (skip_clob_sell rq) (cover_market_id rq) (cover_position rq) ?amt
        (snd (chain_split c w (target_market_id rq) ?amt)))"
    using legs failed by simp
  show "fst (snd (execute c rq w)) =
      SplitCall (target_market_id rq) ?amt #
      fst (snd (leg_executor c (skip_clob_sell rq) (cover_market_id rq) (cover_position rq) ?amt
        (snd (chain_split c w (target_market_id rq) ?amt))))"
    using legs failed by simp
qed

theorem target_split_failure_leaves_cover_witness:
  "fst (chain_split (example_clients False) 0 (target_market_id (example_request ''market-a''))
     (amount_per_position (example_request ''market-a''))) = Inl ''gas error'' \<and>
   error (target (fst (execute (example_clients False) (example_request ''market-a'') 0))) =
     Some ''gas error'' \<and>
   split_tx (target (fst (execute (example_clients False) (example_request ''market-a'') 0))) = None \<and>
   cover (fst (execute (example_clients False) (example_request ''market-a'') 0)) =
     \<lparr>split_tx = Some ''0xb1'', clob_order_id = Some ''order-1'', error = None\<rparr> \<and>
   total_spent (fst (execute (example_clients False) (example_request ''market-a'') 0)) = 10"
proof -
  have failed: "fst (chain_split (example_clients False) 0
      (target_market_id (example_request ''market-a''))
      (amount_per_position (example_request ''market-a''))) = Inl ''gas error''"
    by (simp add: example_clients_def example_request_def)
  note after = target_split_failure_leaves_cover
    [of "example_clients False" 0 "example_request ''market-a''" "''gas error''",
      THEN conjunct1, THEN mp, OF failed]
  have cover_leg: "cover (fst (execute (example_clients False) (example_request ''market-a'') 0)) =
      \<lparr>split_tx = Some ''0xb1'', clob_order_id = Some ''order-1'', error = None\<rparr>"
    unfolding after [THEN conjunct2, THEN conjunct2, THEN conjunct2, THEN conjunct1]
    by (simp add: leg_executor_def example_clients_def example_request_def)
  have spent: "total_spent (fst (execute (example_clients False) (example_request ''market-a'') 0)) = 10"
    unfolding after [THEN conjunct2, THEN conjunct2, THEN conjunct1] cover_leg
    by (simp add: committed_def example_request_def)
  show ?thesis
    by (intro conjI)
      (fact failed, fact after [THEN conjunct1], fact after [THEN conjunct2, THEN conjunct1],
        fact cover_leg, fact spent)
qed





end
